theory Spec2Isabelle
  imports Complex_Main
begin


section \<open>Numbers and rounding\<close>

text \<open>
  The program computes with Python floats. The embedding is in exact arithmetic: every
  amount, percentage and ratio is a rational number, and the literals \<open>0.6\<close>, \<open>0.4\<close>,
  \<open>0.05\<close> and \<open>12.0\<close> are the fractions they denote. Binary rounding error, infinities
  and NaN are outside the model.
\<close>

text \<open>
  Python's \<open>round(x, n)\<close> rounds to the nearest multiple of \<open>10^-n\<close>, an exact tie going
  to the even neighbour.
\<close>

definition round_half_even :: "rat \<Rightarrow> int" where
  "round_half_even y =
     (let f = \<lfloor>y\<rfloor>; d = y - of_int f
      in if d < 1 / 2 then f
         else if 1 / 2 < d then f + 1
         else if even f then f else f + 1)"

definition py_round :: "rat \<Rightarrow> nat \<Rightarrow> rat" where
  "py_round x n = of_int (round_half_even (x * 10 ^ n)) / 10 ^ n"

text \<open>
  \<open>fmt = lambda x: f"{round(x, 2):.2f}"\<close>. Here the value of \<open>fmt x\<close> is the two-decimal
  figure as a number, so that it can be compared with the amount it was rounded from;
  \<open>two_decimals\<close> writes such a figure out with exactly two fractional digits where the
  page interpolates it. Python writes an amount that rounds to zero from below as
  \<open>-0.00\<close>, the float being \<open>-0.0\<close>; the exact model has one zero and writes \<open>0.00\<close>.
\<close>

definition fmt :: "rat \<Rightarrow> rat" where
  "fmt x = py_round x 2"

definition digit_chr :: "nat \<Rightarrow> char" where
  "digit_chr n = ''0123456789'' ! (n mod 10)"

fun digits :: "nat \<Rightarrow> string" where
  "digits n = (if n < 10 then [digit_chr n] else digits (n div 10) @ [digit_chr (n mod 10)])"

definition two_decimals :: "rat \<Rightarrow> string" where
  "two_decimals v =
     (let k = \<lfloor>v * 100\<rfloor>; a = nat \<bar>k\<bar>
      in (if k < 0 then ''-'' else '''')
         @ digits (a div 100) @ ''.'' @ [digit_chr (a div 10 mod 10), digit_chr (a mod 10)])"


section \<open>Data model\<close>

record FinanceInput =
  housing_status :: string
  housing_payment :: rat
  auto_payment :: rat
  credit_payment :: rat
  student_payment :: rat
  monthly_after_tax_income :: rat
  save_percent :: rat
  period_mode :: string
  show_annual :: string

text \<open>
  The dictionary returned by \<open>analyze_finance\<close>, one field per key. The first ten fields
  went through \<open>fmt\<close>; the \<open>_raw\<close> fields, \<open>can_save\<close> and the ratio did not. The ratio is
  \<open>None\<close> where the dictionary holds Python's \<open>None\<close>.
\<close>

record AnalysisResult =
  total_debt :: rat
  available_cash :: rat
  savings_per_paycheck :: rat
  spending_per_paycheck :: rat
  total_debt_monthly :: rat
  available_monthly :: rat
  monthly_savings :: rat
  monthly_spending :: rat
  annual_savings :: rat
  annual_spending :: rat
  can_save :: bool
  available_cash_raw :: rat
  total_debt_raw :: rat
  income_raw :: rat
  debt_income_ratio :: "rat option"
  savings_raw :: rat
  spending_raw :: rat


section \<open>Validation\<close>

definition validate :: "FinanceInput \<Rightarrow> string list" where
  "validate finance =
     (let errors = [];
          errors = (if housing_payment finance < 0
                    then errors @ [''Housing payment cannot be negative.''] else errors);
          errors = (if auto_payment finance < 0
                    then errors @ [''Auto loan payment cannot be negative.''] else errors);
          errors = (if credit_payment finance < 0
                    then errors @ [''Credit card payment cannot be negative.''] else errors);
          errors = (if student_payment finance < 0
                    then errors @ [''Student loan payment cannot be negative.''] else errors);
          errors = (if monthly_after_tax_income finance < 0
                    then errors @ [''Take-home pay per paycheck cannot be negative.'']
                    else errors);
          errors = (if save_percent finance < 0 \<or> save_percent finance > 100
                    then errors @ [''Percent to save must be between 0 and 100.'']
                    else errors)
      in errors)"


section \<open>Analysis\<close>

definition paychecks_per_year :: rat where
  "paychecks_per_year = 26"

definition monthly_factor :: rat where
  "monthly_factor = paychecks_per_year / 12"

definition analyze_finance :: "FinanceInput \<Rightarrow> AnalysisResult" where
  "analyze_finance data =
     (let total_debt_v = housing_payment data + auto_payment data
                         + credit_payment data + student_payment data;
          income = monthly_after_tax_income data;
          available = income - total_debt_v;
          (can_save_v, savings, spending) =
            (if available \<le> 0 then (False, 0, available)
             else (let save_fraction = max 0 (min (save_percent data) 100) / 100;
                       savings = available * save_fraction
                   in (True, savings, available - savings)));
          ratio = (if income > 0 then Some (total_debt_v / income) else None);
          total_debt_monthly_v = total_debt_v * monthly_factor;
          available_monthly_v = available * monthly_factor;
          monthly_savings_v = savings * monthly_factor;
          monthly_spending_v = spending * monthly_factor;
          annual_savings_v = savings * paychecks_per_year;
          annual_spending_v = spending * paychecks_per_year
      in \<lparr> total_debt = fmt total_debt_v,
           available_cash = fmt available,
           savings_per_paycheck = fmt savings,
           spending_per_paycheck = fmt spending,
           total_debt_monthly = fmt total_debt_monthly_v,
           available_monthly = fmt available_monthly_v,
           monthly_savings = fmt monthly_savings_v,
           monthly_spending = fmt monthly_spending_v,
           annual_savings = fmt annual_savings_v,
           annual_spending = fmt annual_spending_v,
           can_save = can_save_v,
           available_cash_raw = available,
           total_debt_raw = total_debt_v,
           income_raw = income,
           debt_income_ratio = ratio,
           savings_raw = savings,
           spending_raw = spending \<rparr>)"


section \<open>Advice\<close>

definition msg_short :: string where
  "msg_short = ''You are short this period. First goal: get leftover cash to at least 0. ''
     @ ''Options: reduce non-essential spending, pause extra debt payments, or temporarily increase income ''
     @ ''(overtime, side work, selling unused items).''"

definition msg_bills :: string where
  "msg_bills = ''List your must-pay bills vs. flexible expenses. Anything flexible should be cut or reduced ''
     @ ''until leftover cash is non-negative.''"

definition msg_very_heavy :: string where
  "msg_very_heavy = ''Your debt payments are more than 60% of your income this period. This is very heavy. ''
     @ ''Consider refinancing, consolidating, or focusing on paying down one high-interest debt while ''
     @ ''keeping others at minimum payments.''"

definition msg_high :: string where
  "msg_high = ''Your debt payments are between 40% and 60% of your income this period. This is high. ''
     @ ''Be careful taking on new debt and try to reduce one balance consistently.''"

definition msg_low_savings :: string where
  "msg_low_savings = ''You have leftover cash but are saving a small portion of it. ''
     @ ''If possible, slowly increase your save percentage (for example, +1% every month) ''
     @ ''until you reach a level that feels sustainable.''"

definition advice_messages :: "AnalysisResult \<Rightarrow> string list" where
  "advice_messages result =
     (let msgs = [];
          available = available_cash_raw result;
          total_debt_v = total_debt_raw result;
          income = income_raw result;
          r = debt_income_ratio result;
          msgs = (if available < 0 then (msgs @ [msg_short]) @ [msg_bills] else msgs);
          msgs = (case r of
                    None \<Rightarrow> msgs
                  | Some q \<Rightarrow> if q > 6 / 10 then msgs @ [msg_very_heavy]
                              else if q > 4 / 10 then msgs @ [msg_high]
                              else msgs);
          savings = savings_raw result;
          msgs = (if available > 0 \<and> savings < max 20 (5 / 100 * available)
                  then msgs @ [msg_low_savings] else msgs)
      in msgs)"


section \<open>Bar chart\<close>

text \<open>
  The chart is either the placeholder paragraph or the three rows, each a label and the
  width that is written into the bar's style and into the percentage beside it.
\<close>

datatype chart = Chart_placeholder | Chart_rows "(string \<times> rat) list"

definition pct :: "rat \<Rightarrow> rat \<Rightarrow> rat" where
  "pct total_v x = py_round (100 * x / total_v) 1"

definition bar_chart :: "AnalysisResult \<Rightarrow> chart" where
  "bar_chart result =
     (let debt = max (total_debt_raw result) 0;
          savings = max (savings_raw result) 0;
          spending = max (spending_raw result) 0;
          total_v = debt + savings + max spending 0
      in if total_v \<le> 0 then Chart_placeholder
         else Chart_rows
                (map (\<lambda>(label, v). (label, if v \<le> 0 then 0 else pct total_v v))
                   [(''Debt'', debt), (''Savings'', savings), (''Spending'', max spending 0)]))"


section \<open>The handler of POST /analyze\<close>

text \<open>
  The handler returns a page fragment. The fragment is modelled by what varies in it: the
  list of errors, or the summary with its style class, the detail items, the chart and the
  optional advice block; the fixed markup around them is left out. Next to the fragment the
  model returns the component functions the handler called, in call order, so that a
  statement about a component not being called can be made.
\<close>

datatype call = Call_validate | Call_analyze_finance | Call_advice_messages | Call_bar_chart

record results_page =
  summary :: string
  summary_cls :: string
  items :: "string list"
  page_chart :: chart
  advice_block :: "string list option"

datatype response = Error_list "string list" | Results results_page

definition post :: "FinanceInput \<Rightarrow> response \<times> call list" where
  "post finance =
     (let errors = validate finance;
          calls = [Call_validate]
      in if errors \<noteq> [] then (Error_list errors, calls)
         else
           (let result = analyze_finance finance;
                calls = calls @ [Call_analyze_finance];
                mode = (if period_mode finance \<noteq> [] then period_mode finance else ''paycheck'');
                show_annual_v = (show_annual finance \<noteq> []);
                (summary_v, summary_cls_v) =
                  (if available_cash_raw result \<le> 0
                   then ((if mode = ''monthly''
                          then ''You do not have leftover cash after debts (in the monthly equivalent). ''
                               @ ''You cannot save based on these numbers.''
                          else ''You do not have leftover cash after debts this paycheck. ''
                               @ ''You cannot save based on these numbers.''),
                         ''result-bad'')
                   else ((if mode = ''monthly''
                          then ''Monthly equivalent: you have '' @ two_decimals (available_monthly result)
                               @ '' left after debts. ''
                               @ ''You save '' @ two_decimals (monthly_savings result) @ '' and keep ''
                               @ two_decimals (monthly_spending result)
                               @ '' for other expenses per month.''
                          else ''You have '' @ two_decimals (available_cash result)
                               @ '' left after debts this paycheck. ''
                               @ ''You save '' @ two_decimals (savings_per_paycheck result) @ '' and keep ''
                               @ two_decimals (spending_per_paycheck result)
                               @ '' for other expenses.''),
                         ''result-good''));
                items_v =
                  (if mode = ''monthly''
                   then [''total_debt_per_month (approx): '' @ two_decimals (total_debt_monthly result),
                         ''available_cash_before_saving_per_month (approx): ''
                           @ two_decimals (available_monthly result),
                         ''savings_per_month (approx): '' @ two_decimals (monthly_savings result),
                         ''spending_money_per_month (approx): '' @ two_decimals (monthly_spending result)]
                   else [''total_debt_per_paycheck: '' @ two_decimals (total_debt result),
                         ''available_cash_before_saving: '' @ two_decimals (available_cash result),
                         ''savings_per_paycheck: '' @ two_decimals (savings_per_paycheck result),
                         ''spending_money_per_paycheck: '' @ two_decimals (spending_per_paycheck result)]);
                items_v =
                  (if show_annual_v
                   then items_v @ [''annual_savings (26 paychecks): '' @ two_decimals (annual_savings result)
                                   @ '' | annual_spending (26 paychecks): ''
                                   @ two_decimals (annual_spending result)]
                   else items_v);
                advice = advice_messages result;
                calls = calls @ [Call_advice_messages];
                advice_block_v = (if advice \<noteq> [] then Some advice else None);
                chart_v = bar_chart result;
                calls = calls @ [Call_bar_chart]
            in (Results \<lparr> summary = summary_v, summary_cls = summary_cls_v, items = items_v,
                           page_chart = chart_v, advice_block = advice_block_v \<rparr>,
                calls)))"


section \<open>The specification's wording\<close>


definition debt_sum :: "FinanceInput \<Rightarrow> rat" where
  "debt_sum d = housing_payment d + auto_payment d + credit_payment d + student_payment d"

definition cash_left :: "FinanceInput \<Rightarrow> rat" where
  "cash_left d = monthly_after_tax_income d - debt_sum d"

text \<open>The six validation rules, in the order of the checks.\<close>

datatype rule = Housing_rule | Auto_rule | Credit_rule | Student_rule | Income_rule | Percent_rule





text \<open>The five pieces of advice, in the order of the three rules that emit them.\<close>

datatype advice = Shortfall | Bills_vs_flexible | Very_heavy_debt | High_debt | Low_savings









text \<open>The chart of a response, if it has one.\<close>

fun response_chart :: "response \<Rightarrow> chart option" where
  "response_chart (Error_list es) = None"
| "response_chart (Results p) = Some (page_chart p)"


section \<open>Reference inputs\<close>

text \<open>
  A \<open>FinanceInput\<close> built as the dataclass builds it when the two defaulted fields are
  left out.
\<close>

definition FinanceInput_init ::
    "string \<Rightarrow> rat \<Rightarrow> rat \<Rightarrow> rat \<Rightarrow> rat \<Rightarrow> rat \<Rightarrow> rat \<Rightarrow> FinanceInput" where
  "FinanceInput_init status housing auto credit student income percent =
     \<lparr> housing_status = status, housing_payment = housing, auto_payment = auto,
       credit_payment = credit, student_payment = student,
       monthly_after_tax_income = income, save_percent = percent,
       period_mode = ''paycheck'', show_annual = [] \<rparr>"

text \<open>The specification's scenarios A, B, C, D and E.\<close>

definition scenario_a :: FinanceInput where
  "scenario_a = FinanceInput_init ''rent'' 0 0 0 0 1000 10"


definition scenario_c :: FinanceInput where
  "scenario_c = FinanceInput_init ''own'' 650 0 0 0 1000 10"


definition scenario_e :: FinanceInput where
  "scenario_e = FinanceInput_init ''rent'' 0 0 0 0 1000 150"


definition only_debt :: FinanceInput where
  "only_debt = FinanceInput_init ''rent'' 500 0 0 0 0 10"




section \<open>Facts about rounding\<close>





lemma round_half_even_of_int [simp]: "round_half_even (of_int k) = k"
  unfolding round_half_even_def Let_def by simp


lemma py_round_zero [simp]: "py_round 0 n = 0"
  by (simp add: py_round_def round_half_even_def)




section \<open>The fields of the analysis\<close>

text \<open>The fields of the result that are used below, each as a function of the input.\<close>

lemma input_simps:
  "housing_payment (FinanceInput_init hs h a c s i p) = h"
  "auto_payment (FinanceInput_init hs h a c s i p) = a"
  "credit_payment (FinanceInput_init hs h a c s i p) = c"
  "student_payment (FinanceInput_init hs h a c s i p) = s"
  "monthly_after_tax_income (FinanceInput_init hs h a c s i p) = i"
  "save_percent (FinanceInput_init hs h a c s i p) = p"
  "period_mode (FinanceInput_init hs h a c s i p) = ''paycheck''"
  "show_annual (FinanceInput_init hs h a c s i p) = []"
  by (simp_all add: FinanceInput_init_def)

lemma total_debt_raw_analyze: "total_debt_raw (analyze_finance d) = debt_sum d"
  by (simp add: analyze_finance_def debt_sum_def Let_def split: prod.splits)


lemma savings_raw_analyze:
  "savings_raw (analyze_finance d) =
     (if cash_left d \<le> 0 then 0 else cash_left d * (max 0 (min (save_percent d) 100) / 100))"
  by (simp add: analyze_finance_def debt_sum_def cash_left_def Let_def split: prod.splits)

lemma spending_raw_analyze:
  "spending_raw (analyze_finance d) =
     (if cash_left d \<le> 0 then cash_left d
      else cash_left d - cash_left d * (max 0 (min (save_percent d) 100) / 100))"
  by (simp add: analyze_finance_def debt_sum_def cash_left_def Let_def split: prod.splits)


lemma debt_income_ratio_analyze:
  "debt_income_ratio (analyze_finance d) =
     (if monthly_after_tax_income d > 0 then Some (debt_sum d / monthly_after_tax_income d) else None)"
  by (simp add: analyze_finance_def debt_sum_def cash_left_def Let_def split: prod.splits)






section \<open>The analyzer's case split\<close>




section \<open>The debt-to-income ratio\<close>

text \<open>
  Claim C5. The ratio of the result is the total debt divided by the income exactly when
  the income is positive; when the income is 0 it is absent (\<open>None\<close>, not the number 0),
  whatever the debt.
\<close>

theorem ratio_present_iff_income_positive:
  "(0 < monthly_after_tax_income d \<longrightarrow>
      debt_income_ratio (analyze_finance d) = Some (debt_sum d / monthly_after_tax_income d)) \<and>
   (monthly_after_tax_income d = 0 \<longrightarrow> debt_income_ratio (analyze_finance d) = None) \<and>
   (debt_income_ratio (analyze_finance d) \<noteq> None \<longleftrightarrow> 0 < monthly_after_tax_income d)"
  by (simp add: debt_income_ratio_analyze)

text \<open>Scenario C has the ratio 0.65; an input with a payment of 500 and no income has none.\<close>

theorem ratio_present_iff_income_positive_witness:
  "0 < monthly_after_tax_income scenario_c \<and>
   debt_income_ratio (analyze_finance scenario_c) = Some (13 / 20) \<and>
   monthly_after_tax_income only_debt = 0 \<and>
   debt_income_ratio (analyze_finance only_debt) = None"
proof -
  have c: "monthly_after_tax_income scenario_c = 1000" "debt_sum scenario_c = 650"
    by (simp_all add: debt_sum_def scenario_c_def input_simps)
  have n: "monthly_after_tax_income only_debt = 0"
    by (simp add: only_debt_def input_simps)
  show ?thesis
    using ratio_present_iff_income_positive [of scenario_c]
      ratio_present_iff_income_positive [of only_debt]
    by (simp add: c n)
qed


section \<open>Savings and spending\<close>






section \<open>Monthly and annual projections\<close>




section \<open>Validation\<close>








section \<open>Advice\<close>







section \<open>Bar chart\<close>







lemma bar_chart_raw_only:
  "total_debt_raw r = total_debt_raw r' \<Longrightarrow> savings_raw r = savings_raw r' \<Longrightarrow>
   spending_raw r = spending_raw r' \<Longrightarrow> bar_chart r = bar_chart r'"
  by (simp add: bar_chart_def)




section \<open>The handler\<close>

text \<open>
  Claim C8. When \<open>validate\<close> returns errors, the handler returns the list of these errors
  and nothing else, and \<open>validate\<close> is the only component it has called: neither
  \<open>analyze_finance\<close> nor \<open>advice_messages\<close> nor \<open>bar_chart\<close> runs.
\<close>

theorem invalid_input_only_errors:
  "validate f \<noteq> [] \<Longrightarrow> post f = (Error_list (validate f), [Call_validate])"
  by (simp add: post_def Let_def)

text \<open>Scenario E, a percentage of 150.\<close>

theorem invalid_input_only_errors_witness:
  "validate scenario_e \<noteq> [] \<and>
   post scenario_e = (Error_list [''Percent to save must be between 0 and 100.''], [Call_validate])"
proof -
  have v: "validate scenario_e = [''Percent to save must be between 0 and 100.'']"
    by code_simp
  then have ne: "validate scenario_e \<noteq> []"
    by simp
  show ?thesis
    using ne invalid_input_only_errors [OF ne] by (simp add: v)
qed

lemma post_valid:
  "validate f = [] \<Longrightarrow>
   response_chart (fst (post f)) = Some (bar_chart (analyze_finance f)) \<and>
   snd (post f) = [Call_validate, Call_analyze_finance, Call_advice_messages, Call_bar_chart]"
  by (simp add: post_def Let_def case_prod_beta split del: if_split)

lemma validate_period_mode: "validate (f\<lparr>period_mode := m\<rparr>) = validate f"
  by (simp add: validate_def)

lemma raw_period_mode:
  "total_debt_raw (analyze_finance (f\<lparr>period_mode := m\<rparr>)) = total_debt_raw (analyze_finance f)"
  "savings_raw (analyze_finance (f\<lparr>period_mode := m\<rparr>)) = savings_raw (analyze_finance f)"
  "spending_raw (analyze_finance (f\<lparr>period_mode := m\<rparr>)) = spending_raw (analyze_finance f)"
  by (simp_all add: total_debt_raw_analyze savings_raw_analyze spending_raw_analyze
      cash_left_def debt_sum_def)

text \<open>
  Claim C9. Two valid inputs that differ only in \<open>period_mode\<close> get the same chart from the
  handler: the chart is \<open>bar_chart\<close> of the analysis, and \<open>bar_chart\<close> depends on nothing
  but the three unrounded per-paycheck amounts of the result.
\<close>

theorem chart_ignores_period_mode:
  assumes "validate f = []" and "g = f\<lparr>period_mode := m\<rparr>"
  shows "validate g = [] \<and>
         response_chart (fst (post g)) = response_chart (fst (post f)) \<and>
         response_chart (fst (post f)) = Some (bar_chart (analyze_finance f)) \<and>
         (\<forall>r r'. total_debt_raw r = total_debt_raw r' \<and> savings_raw r = savings_raw r' \<and>
                 spending_raw r = spending_raw r' \<longrightarrow> bar_chart r = bar_chart r')"
proof (intro conjI allI impI)
  show g: "validate g = []"
    using assms by (simp add: validate_period_mode)
  have same: "bar_chart (analyze_finance g) = bar_chart (analyze_finance f)"
    unfolding assms(2) by (rule bar_chart_raw_only) (rule raw_period_mode)+
  show "response_chart (fst (post g)) = response_chart (fst (post f))"
    using post_valid [OF g] post_valid [OF assms(1)] same by simp
  show "response_chart (fst (post f)) = Some (bar_chart (analyze_finance f))"
    using post_valid [OF assms(1)] by simp
next
  fix r r' :: AnalysisResult
  assume "total_debt_raw r = total_debt_raw r' \<and> savings_raw r = savings_raw r' \<and>
          spending_raw r = spending_raw r'"
  then show "bar_chart r = bar_chart r'"
    by (intro bar_chart_raw_only) simp_all
qed

text \<open>
  Scenario A, viewed per paycheck and per month; and its analysis with a monthly field
  overwritten, which the chart does not notice.
\<close>

theorem chart_ignores_period_mode_witness:
  "validate scenario_a = [] \<and>
   validate (scenario_a\<lparr>period_mode := ''monthly''\<rparr>) = [] \<and>
   response_chart (fst (post (scenario_a\<lparr>period_mode := ''monthly''\<rparr>)))
     = response_chart (fst (post scenario_a)) \<and>
   response_chart (fst (post scenario_a))
     = Some (Chart_rows [(''Debt'', 0), (''Savings'', 10), (''Spending'', 90)]) \<and>
   bar_chart ((analyze_finance scenario_a)\<lparr>available_monthly := 0\<rparr>)
     = bar_chart (analyze_finance scenario_a)"
proof -
  have v: "validate scenario_a = []"
    by code_simp
  have c: "bar_chart (analyze_finance scenario_a)
             = Chart_rows [(''Debt'', 0), (''Savings'', 10), (''Spending'', 90)]"
    by code_simp
  note inst = chart_ignores_period_mode [OF v refl, of "''monthly''"]
  from inst
  have "validate (scenario_a\<lparr>period_mode := ''monthly''\<rparr>) = [] \<and>
        response_chart (fst (post (scenario_a\<lparr>period_mode := ''monthly''\<rparr>)))
          = response_chart (fst (post scenario_a)) \<and>
        response_chart (fst (post scenario_a)) = Some (bar_chart (analyze_finance scenario_a))"
    by blast
  moreover
  let ?r = "analyze_finance scenario_a"
  have "total_debt_raw (?r\<lparr>available_monthly := 0\<rparr>) = total_debt_raw ?r \<and>
        savings_raw (?r\<lparr>available_monthly := 0\<rparr>) = savings_raw ?r \<and>
        spending_raw (?r\<lparr>available_monthly := 0\<rparr>) = spending_raw ?r"
    by simp
  with inst have "bar_chart (?r\<lparr>available_monthly := 0\<rparr>) = bar_chart ?r"
    by blast
  ultimately show ?thesis
    using v by (simp only: c simp_thms)
qed

end
